theory Spec2Isabelle
  imports Complex_Main
begin

section \<open>Values shared by the functions of Util.js\<close>

text \<open>
  JavaScript numbers that reach these functions are finite (JSON cannot carry a
  not-a-number value, which is why ArcGIS Server sends the string "NaN" instead). They are
  only copied and compared here, so they are modelled as \<open>real\<close>. Strings are lists of 8-bit
  code units.

  A failing JavaScript statement (a property read on \<open>null\<close> or \<open>undefined\<close>, a pattern that
  does not compile) is a value of \<open>js_error\<close>; a function that can fail returns
  \<open>js_error + 'a\<close>.

  The functions keep their names, without the leading underscore where they have one.
  Where two objects of the source have a property of the same name (\<open>type\<close>, \<open>features\<close>,
  \<open>geometry\<close>, \<open>attribution\<close>, \<open>score\<close>), the record fields carry the name of their object.
\<close>

datatype js_error = TypeError | SyntaxError | UnmodelledPattern

text \<open>JSON data that is only passed through (coordinates, attribute values, geometries).\<close>

datatype json =
    JNull
  | JNum real
  | JStr string
  | JArr "json list"
  | JObj "(string \<times> json) list"

text \<open>
  The truthiness of an optional string (\<open>None\<close> is \<open>undefined\<close>): the empty string is falsy
  as well. \<open>js_or a b\<close> is \<open>a || b\<close> on such values.
\<close>

definition truthy :: "string option \<Rightarrow> bool" where
  "truthy v = (case v of None \<Rightarrow> False | Some s \<Rightarrow> s \<noteq> [])"

definition js_or :: "string option \<Rightarrow> string option \<Rightarrow> string option" where
  "js_or a b = (if truthy a then a else b)"


section \<open>The Leaflet objects used by Util.js\<close>

text \<open>
  Leaflet is an external library; what Util.js uses of it is modelled here after its
  behaviour. \<open>L.latLng(lat, lng)\<close> makes a point. \<open>L.latLngBounds(a, b)\<close> makes the smallest
  rectangle that contains both points: its constructor starts from the first point and
  extends the rectangle by the second (the method \<open>extend\<close>), taking the minimum of the
  latitudes and of the longitudes for the south-west corner and the maximum for the
  north-east one.
\<close>

record LatLng =
  lat :: real
  lng :: real

record LatLngBounds =
  southWest :: LatLng
  northEast :: LatLng

definition latLng :: "real \<Rightarrow> real \<Rightarrow> LatLng" where
  "latLng a b = \<lparr>lat = a, lng = b\<rparr>"

definition extend_bounds :: "LatLngBounds \<Rightarrow> LatLng \<Rightarrow> LatLngBounds" where
  "extend_bounds b p =
     \<lparr>southWest = \<lparr>lat = min (lat p) (lat (southWest b)), lng = min (lng p) (lng (southWest b))\<rparr>,
      northEast = \<lparr>lat = max (lat p) (lat (northEast b)), lng = max (lng p) (lng (northEast b))\<rparr>\<rparr>"

definition latLngBounds :: "LatLng \<Rightarrow> LatLng \<Rightarrow> LatLngBounds" where
  "latLngBounds corner1 corner2 = extend_bounds \<lparr>southWest = corner1, northEast = corner1\<rparr> corner2"

definition getSouthWest :: "LatLngBounds \<Rightarrow> LatLng" where
  "getSouthWest b = southWest b"

definition getNorthEast :: "LatLngBounds \<Rightarrow> LatLng" where
  "getNorthEast b = northEast b"

text \<open>
  Every rectangle that Leaflet builds has its south-west corner south and west of its
  north-east corner.
\<close>

definition ordered_corners :: "LatLngBounds \<Rightarrow> bool" where
  "ordered_corners b =
     (lat (southWest b) \<le> lat (northEast b) \<and> lng (southWest b) \<le> lng (northEast b))"

text \<open>\<open>bounds.intersects(other)\<close>: the rectangles share at least one point.\<close>

definition intersects :: "LatLngBounds \<Rightarrow> LatLngBounds \<Rightarrow> bool" where
  "intersects this other =
     (let sw = southWest this; ne = northEast this;
          sw2 = getSouthWest other; ne2 = getNorthEast other;
          latIntersects = (lat ne2 \<ge> lat sw \<and> lat sw2 \<le> lat ne);
          lngIntersects = (lng ne2 \<ge> lng sw \<and> lng sw2 \<le> lng ne)
      in latIntersects \<and> lngIntersects)"

text \<open>
  \<open>latlng.wrap()\<close>: the longitude is brought into the range from -180 to 180 (180 itself is
  kept), the latitude is unchanged.
\<close>

definition wrapNum :: "real \<Rightarrow> real" where
  "wrapNum x = (if x = 180 then x else x + 180 - 360 * of_int \<lfloor>(x + 180) / 360\<rfloor> - 180)"

definition wrap :: "LatLng \<Rightarrow> LatLng" where
  "wrap p = \<lparr>lat = lat p, lng = wrapNum (lng p)\<rparr>"

text \<open>
  \<open>L.Util.trim\<close> removes the white space and the line terminators at both ends of a string:
  of the code units below 256 these are TAB, LF, VT, FF, CR, SPACE and NBSP.
\<close>

definition is_space :: "char \<Rightarrow> bool" where
  "is_space c = ((of_char c :: nat) \<in> {9, 10, 11, 12, 13, 32, 160})"

definition trim :: "string \<Rightarrow> string" where
  "trim s = rev (dropWhile is_space (rev (dropWhile is_space s)))"


section \<open>Bounding boxes: extentToBounds and boundsToExtent\<close>

text \<open>
  An edge of an extent, as ArcGIS Server sends it: a number, or the string "NaN" (the edges
  of a null geometry).
\<close>

datatype coord = Num real | NaN

record extent =
  xmin :: coord
  ymin :: coord
  xmax :: coord
  ymax :: coord
  spatialReference :: "nat option"

text \<open>The number in an edge that has passed the "NaN" test.\<close>

fun num :: "coord \<Rightarrow> real" where
  "num (Num r) = r"
| "num NaN = 0"

text \<open>\<open>None\<close> is the \<open>null\<close> that extentToBounds returns.\<close>

definition extentToBounds :: "extent \<Rightarrow> LatLngBounds option" where
  "extentToBounds extent =
     (if xmin extent \<noteq> NaN \<and> ymin extent \<noteq> NaN \<and> xmax extent \<noteq> NaN \<and> ymax extent \<noteq> NaN
      then (let sw = latLng (num (ymin extent)) (num (xmin extent));
                ne = latLng (num (ymax extent)) (num (xmax extent))
            in Some (latLngBounds sw ne))
      else None)"

text \<open>
  boundsToExtent first passes its argument through \<open>latLngBounds(bounds)\<close>, which returns a
  LatLngBounds object as it is.
\<close>

definition boundsToExtent :: "LatLngBounds \<Rightarrow> extent" where
  "boundsToExtent bounds =
     \<lparr>xmin = Num (lng (getSouthWest bounds)),
      ymin = Num (lat (getSouthWest bounds)),
      xmax = Num (lng (getNorthEast bounds)),
      ymax = Num (lat (getNorthEast bounds)),
      spatialReference = Some 4326\<rparr>"


section \<open>cleanUrl and geojsonTypeToArcGIS\<close>

definition cleanUrl :: "string \<Rightarrow> string" where
  "cleanUrl url =
     (let url = trim url
      in if url = [] \<or> last url \<noteq> CHR ''/'' then url @ ''/'' else url)"

text \<open>The number of path separators at the end of a string.\<close>

definition trailing_separators :: "string \<Rightarrow> nat" where
  "trailing_separators s = length (takeWhile (\<lambda>c. c = CHR ''/'') (rev s))"

text \<open>\<open>None\<close> is the \<open>undefined\<close> of a switch that matched no case.\<close>

definition geojsonTypeToArcGIS :: "string \<Rightarrow> string option" where
  "geojsonTypeToArcGIS geoJsonType =
     (if geoJsonType = ''Point'' then Some ''esriGeometryPoint''
      else if geoJsonType = ''MultiPoint'' then Some ''esriGeometryMultipoint''
      else if geoJsonType = ''LineString'' then Some ''esriGeometryPolyline''
      else if geoJsonType = ''MultiLineString'' then Some ''esriGeometryPolyline''
      else if geoJsonType = ''Polygon'' then Some ''esriGeometryPolygon''
      else if geoJsonType = ''MultiPolygon'' then Some ''esriGeometryPolygon''
      else None)"


section \<open>Identifier field resolution\<close>

text \<open>
  The pattern \<open>/^(OBJECTID|FID|OID|ID)$/i\<close>: the whole string is one of the four names, letter
  case ignored. Without the unicode flag only the letters a to z are folded onto A to Z.
\<close>

definition toUpperCase :: "char \<Rightarrow> char" where
  "toUpperCase c =
     (case map_of (zip ''abcdefghijklmnopqrstuvwxyz'' ''ABCDEFGHIJKLMNOPQRSTUVWXYZ'') c of
        Some u \<Rightarrow> u
      | None \<Rightarrow> c)"

definition knownFieldNames :: "string \<Rightarrow> bool" where
  "knownFieldNames s = (map toUpperCase s \<in> set [''OBJECTID'', ''FID'', ''OID'', ''ID''])"

text \<open>An entry of \<open>response.fields\<close> (the record field \<open>response_fields\<close> below).\<close>

record field =
  name :: string
  type :: string

text \<open>
  A raw feature of a response. \<open>attributes\<close> lists the keys of the attributes object in the
  order in which \<open>for (key in ...)\<close> visits them; \<open>None\<close> is a feature without attributes,
  which the loop does not enter.
\<close>

record feature =
  attributes :: "(string \<times> json) list option"
  feature_geometry :: json

text \<open>
  A response: \<open>None\<close> is an absent key. An array is truthy also when it is empty, so
  \<open>response.features || response.results\<close> is the features list whenever that key is present.
\<close>

record response =
  objectIdFieldName :: "string option"
  response_fields :: "field list option"
  features :: "feature list option"
  results :: "feature list option"

text \<open>The first loop of _findIdAttributeFromResponse: the name of the first field of type OID.\<close>

fun firstOidField :: "field list \<Rightarrow> string option" where
  "firstOidField [] = None"
| "firstOidField (f # fs) =
     (if type f = ''esriFieldTypeOID'' then Some (name f) else firstOidField fs)"

text \<open>The second loop: the first field whose name is a well-known one.\<close>

fun firstKnownField :: "field list \<Rightarrow> string option" where
  "firstKnownField [] = None"
| "firstKnownField (f # fs) =
     (if knownFieldNames (name f) then Some (name f) else firstKnownField fs)"

definition findIdAttributeFromResponse :: "response \<Rightarrow> string option" where
  "findIdAttributeFromResponse response =
     (if truthy (objectIdFieldName response) then objectIdFieldName response
      else case response_fields response of
             None \<Rightarrow> None
           | Some fs \<Rightarrow>
               (let result = firstOidField fs
                in if \<not> truthy result
                   then (case firstKnownField fs of Some n \<Rightarrow> Some n | None \<Rightarrow> result)
                   else result))"

fun firstKnownKey :: "string list \<Rightarrow> string option" where
  "firstKnownKey [] = None"
| "firstKnownKey (key # keys) = (if knownFieldNames key then Some key else firstKnownKey keys)"

definition findIdAttributeFromFeature :: "feature \<Rightarrow> string option" where
  "findIdAttributeFromFeature feature =
     (case attributes feature of None \<Rightarrow> None | Some kvs \<Rightarrow> firstKnownKey (map fst kvs))"


section \<open>Feature collections\<close>

text \<open>
  The converters of @esri/arcgis-to-geojson-utils are external: they are parameters
  (\<open>a2g\<close> here, \<open>g2a\<close> in the section on query geometries) of the functions that call them.
\<close>

definition arcgisToGeoJSON :: "('a \<Rightarrow> string option \<Rightarrow> 'g) \<Rightarrow> 'a \<Rightarrow> string option \<Rightarrow> 'g" where
  "arcgisToGeoJSON a2g arcgis idAttr = a2g arcgis idAttr"

record 'g featureCollection =
  collection_type :: string
  collection_features :: "'g list"

text \<open>
  The loop \<open>for (i = features.length - 1; i >= 0; i--)\<close>: the first number is \<open>i + 1\<close>, the
  list is the output array, to which each converted feature is pushed.
\<close>

fun pushFeatures :: "(feature \<Rightarrow> 'g) \<Rightarrow> feature list \<Rightarrow> nat \<Rightarrow> 'g list \<Rightarrow> 'g list" where
  "pushFeatures conv fs 0 out = out"
| "pushFeatures conv fs (Suc i) out = pushFeatures conv fs i (out @ [conv (fs ! i)])"

text \<open>
  Reading \<open>length\<close> of \<open>response.features || response.results\<close> fails when both keys are
  absent.
\<close>

definition responseToFeatureCollection ::
  "(feature \<Rightarrow> string option \<Rightarrow> 'g) \<Rightarrow> response \<Rightarrow> string option \<Rightarrow> js_error + 'g featureCollection"
where
  "responseToFeatureCollection a2g response idAttribute =
     (case (case features response of Some fs \<Rightarrow> Some fs | None \<Rightarrow> results response) of
        None \<Rightarrow> Inl TypeError
      | Some fs \<Rightarrow>
          (let count = length fs;
               objectIdField =
                 (if truthy idAttribute then idAttribute else findIdAttributeFromResponse response);
               featureCollection = \<lparr>collection_type = ''FeatureCollection'', collection_features = []\<rparr>
           in Inr (if count \<noteq> 0
                   then featureCollection\<lparr>collection_features :=
                          pushFeatures
                            (\<lambda>f. arcgisToGeoJSON a2g f (js_or objectIdField (findIdAttributeFromFeature f)))
                            fs (length fs) (collection_features featureCollection)\<rparr>
                   else featureCollection)))"


section \<open>Console warnings\<close>

text \<open>
  The console is the list of the messages written with \<open>console.warn\<close>, or \<open>None\<close> where the
  host has no \<open>console.warn\<close>: then \<open>warn\<close> does nothing.
\<close>

type_synonym console = "string list option"

definition warn :: "console \<Rightarrow> string \<Rightarrow> console" where
  "warn console message =
     (case console of None \<Rightarrow> None | Some messages \<Rightarrow> Some (messages @ [message]))"


section \<open>Query geometries: _setGeometry\<close>

text \<open>A plain GeoJSON object: its \<open>type\<close>, \<open>coordinates\<close> and \<open>geometry\<close> properties, where present.\<close>

datatype geojson =
  GeoJSON (geojson_type: "string option") (coordinates: "json option")
    (geojson_geometry: "geojson option")

text \<open>
  The values that _setGeometry tells apart:
  \<^item> \<open>Nullish\<close>: \<open>null\<close> or \<open>undefined\<close>, on which every property read fails;
  \<^item> \<open>Primitive\<close>: a number, a string or a boolean, which has none of the properties read;
  \<^item> \<open>Bounds\<close>: an instance of L.LatLngBounds;
  \<^item> \<open>LatLngObject\<close>: an instance of L.LatLng;
  \<^item> \<open>Marker\<close>: a layer with a \<open>getLatLng\<close> method, with the point that it returns;
  \<^item> \<open>GeoJSONLayer\<close>: an instance of L.GeoJSON, with the \<open>feature.geometry\<close> of each of its
    layers in the order of \<open>getLayers()\<close>;
  \<^item> \<open>VectorLayer\<close>: a layer with a \<open>toGeoJSON\<close> method (L.Polyline, L.Polygon), with the
    object that it returns;
  \<^item> \<open>Object\<close>: a plain object.
\<close>

datatype js_geometry =
    Nullish
  | Primitive
  | Bounds LatLngBounds
  | LatLngObject LatLng
  | Marker LatLng
  | GeoJSONLayer "geojson list"
  | VectorLayer geojson
  | Object geojson

text \<open>
  geojsonToArcGIS hands its arguments to the external converter \<open>g2a\<close>. That converter
  fails on a malformed geometry (on one without coordinates, for example, where it reads
  a property of \<open>undefined\<close>), so its result is a failure or the converted geometry, and
  the failure is the failure of geojsonToArcGIS.
\<close>

definition geojsonToArcGIS ::
  "(geojson \<Rightarrow> string option \<Rightarrow> js_error + 'a) \<Rightarrow> geojson \<Rightarrow> string option \<Rightarrow> js_error + 'a"
where
  "geojsonToArcGIS g2a geojson idAttr = g2a geojson idAttr"

text \<open>
  A converter for the examples: as the external one does, it fails with a TypeError on a
  geometry without coordinates; of any other it returns the coordinates.
\<close>

definition coordinates_converter :: "geojson \<Rightarrow> string option \<Rightarrow> js_error + json" where
  "coordinates_converter g idAttr =
     (case coordinates g of None \<Rightarrow> Inl TypeError | Some c \<Rightarrow> Inr c)"

text \<open>\<open>params.geometry\<close> is an extent or what the external converter returned.\<close>

datatype 'a arcgis_geometry = Envelope extent | Converted 'a

record 'a params =
  geometry :: "'a arcgis_geometry option"
  geometryType :: "string option"

definition invalid_geometry_message :: string where
  "invalid_geometry_message =
     ''invalid geometry passed to spatial query. Should be L.LatLng, L.LatLngBounds, L.Marker or a GeoJSON Point, Line, Polygon or MultiPolygon object''"

text \<open>\<open>geometry.type\<close>, with the failure of the read on \<open>null\<close> and \<open>undefined\<close>.\<close>

fun type_of :: "js_geometry \<Rightarrow> js_error + string option" where
  "type_of Nullish = Inl TypeError"
| "type_of (Object g) = Inr (geojson_type g)"
| "type_of _ = Inr None"

text \<open>\<open>if (geometry.getLatLng) { geometry = geometry.getLatLng(); }\<close>\<close>

fun getLatLng_step :: "js_geometry \<Rightarrow> js_error + js_geometry" where
  "getLatLng_step Nullish = Inl TypeError"
| "getLatLng_step (Marker p) = Inr (LatLngObject p)"
| "getLatLng_step geom = Inr geom"

text \<open>\<open>if (geometry instanceof LatLng) { geometry = {type: 'Point', coordinates: [lng, lat]}; }\<close>\<close>

fun latLng_step :: "js_geometry \<Rightarrow> js_geometry" where
  "latLng_step (LatLngObject p) =
     Object (GeoJSON (Some ''Point'') (Some (JArr [JNum (lng p), JNum (lat p)])) None)"
| "latLng_step geom = geom"

text \<open>
  \<open>if (geometry instanceof GeoJSON) { ... }\<close>: the geometry of the first layer's feature
  replaces the layer and is converted into \<open>params\<close>, before its type is tested; a layer
  group without layers has no first layer to read \<open>feature\<close> from.
\<close>

fun geoJSON_step ::
  "(geojson \<Rightarrow> string option \<Rightarrow> js_error + 'a) \<Rightarrow> js_geometry \<Rightarrow> 'a params
     \<Rightarrow> js_error + js_geometry \<times> 'a params"
where
  "geoJSON_step g2a (GeoJSONLayer []) params = Inl TypeError"
| "geoJSON_step g2a (GeoJSONLayer (g # layers)) params =
     (case geojsonToArcGIS g2a g None of
        Inl e \<Rightarrow> Inl e
      | Inr converted \<Rightarrow>
          Inr (Object g,
               \<lparr>geometry = Some (Converted converted),
                geometryType =
                  (case geojson_type g of None \<Rightarrow> None | Some t \<Rightarrow> geojsonTypeToArcGIS t)\<rparr>))"
| "geoJSON_step g2a geom params = Inr (geom, params)"

text \<open>\<open>if (geometry.toGeoJSON) { geometry = geometry.toGeoJSON(); }\<close>\<close>

fun toGeoJSON_step :: "js_geometry \<Rightarrow> js_error + js_geometry" where
  "toGeoJSON_step Nullish = Inl TypeError"
| "toGeoJSON_step (VectorLayer g) = Inr (Object g)"
| "toGeoJSON_step geom = Inr geom"

text \<open>\<open>if (geometry.type === 'Feature') { geometry = geometry.geometry; }\<close>\<close>

definition feature_step :: "js_geometry \<Rightarrow> js_error + js_geometry" where
  "feature_step geom =
     (case type_of geom of
        Inl e \<Rightarrow> Inl e
      | Inr t \<Rightarrow>
          if t = Some ''Feature''
          then (case geom of
                  Object g \<Rightarrow>
                    Inr (case geojson_geometry g of None \<Rightarrow> Nullish | Some g' \<Rightarrow> Object g')
                | _ \<Rightarrow> Inr geom)
          else Inr geom)"

text \<open>
  The last test and what follows it: a geometry of one of the four accepted types is
  converted and \<open>params\<close> returned, everything else warns and returns \<open>undefined\<close>
  (\<open>None\<close>).
\<close>

definition confirm_step ::
  "(geojson \<Rightarrow> string option \<Rightarrow> js_error + 'a) \<Rightarrow> console \<Rightarrow> js_geometry \<Rightarrow> 'a params
     \<Rightarrow> js_error + console \<times> 'a params option"
where
  "confirm_step g2a console geom params =
     (case type_of geom of
        Inl e \<Rightarrow> Inl e
      | Inr t \<Rightarrow>
          if t = Some ''Point'' \<or> t = Some ''LineString'' \<or> t = Some ''Polygon''
             \<or> t = Some ''MultiPolygon''
          then (case geom of
                  Object g \<Rightarrow>
                    (case geojsonToArcGIS g2a g None of
                       Inl e \<Rightarrow> Inl e
                     | Inr converted \<Rightarrow>
                         Inr (console,
                           Some \<lparr>geometry = Some (Converted converted),
                                 geometryType =
                                   (case t of None \<Rightarrow> None
                                    | Some ty \<Rightarrow> geojsonTypeToArcGIS ty)\<rparr>))
                | _ \<Rightarrow> Inr (warn console invalid_geometry_message, None))
          else Inr (warn console invalid_geometry_message, None))"

text \<open>
  _setGeometry: the result is the failure, or the console after the call with the value
  returned.
\<close>

definition setGeometry ::
  "(geojson \<Rightarrow> string option \<Rightarrow> js_error + 'a) \<Rightarrow> console \<Rightarrow> js_geometry
     \<Rightarrow> js_error + console \<times> 'a params option"
where
  "setGeometry g2a console geom =
     (let params = \<lparr>geometry = None, geometryType = None\<rparr>
      in case geom of
           Bounds b \<Rightarrow>
             Inr (console,
                  Some \<lparr>geometry = Some (Envelope (boundsToExtent b)),
                        geometryType = Some ''esriGeometryEnvelope''\<rparr>)
         | _ \<Rightarrow>
             (case getLatLng_step geom of
                Inl e \<Rightarrow> Inl e
              | Inr geom \<Rightarrow>
                  (case geoJSON_step g2a (latLng_step geom) params of
                     Inl e \<Rightarrow> Inl e
                   | Inr (geom, params) \<Rightarrow>
                       (case toGeoJSON_step geom of
                          Inl e \<Rightarrow> Inl e
                        | Inr geom \<Rightarrow>
                            (case feature_step geom of
                               Inl e \<Rightarrow> Inl e
                             | Inr geom \<Rightarrow> confirm_step g2a console geom params)))))"


section \<open>Matching a string against a pattern given as a string\<close>

text \<open>
  \<open>str.match(text)\<close> with a string \<open>text\<close> compiles \<open>text\<close> as a regular expression and
  searches \<open>str\<close> for it. The fragment of the pattern language modelled here: a character
  that is not a syntax character stands for itself, a dot for any character but a line
  terminator, and parentheses group (they must balance, or the pattern does not compile).
  A pattern with any other syntax character is outside the model (\<open>UnmodelledPattern\<close>).
\<close>

datatype atom = Lit char | AnyChar

definition other_syntax_characters :: "char list" where
  "other_syntax_characters =
     [CHR ''^'', CHR ''$'', CHR 0x5C, CHR ''*'', CHR ''+'', CHR ''?'', CHR ''['', CHR '']'',
      CHR ''{'', CHR ''}'', CHR ''|'']"

text \<open>The number is the count of groups that are open.\<close>

fun compile_pattern :: "string \<Rightarrow> nat \<Rightarrow> js_error + atom list" where
  "compile_pattern [] depth = (if depth = 0 then Inr [] else Inl SyntaxError)"
| "compile_pattern (c # cs) depth =
     (if c = CHR ''('' then compile_pattern cs (Suc depth)
      else if c = CHR '')'' then
        (case depth of 0 \<Rightarrow> Inl SyntaxError | Suc d \<Rightarrow> compile_pattern cs d)
      else if c \<in> set other_syntax_characters then Inl UnmodelledPattern
      else (case compile_pattern cs depth of
              Inl e \<Rightarrow> Inl e
            | Inr atoms \<Rightarrow> Inr ((if c = CHR ''.'' then AnyChar else Lit c) # atoms)))"

fun match_here :: "atom list \<Rightarrow> string \<Rightarrow> bool" where
  "match_here [] s = True"
| "match_here (a # atoms) [] = False"
| "match_here (Lit c # atoms) (x # xs) = (c = x \<and> match_here atoms xs)"
| "match_here (AnyChar # atoms) (x # xs) =
     (x \<noteq> CHR 0x0A \<and> x \<noteq> CHR 0x0D \<and> match_here atoms xs)"

fun search :: "atom list \<Rightarrow> string \<Rightarrow> bool" where
  "search atoms [] = match_here atoms []"
| "search atoms (x # xs) = (match_here atoms (x # xs) \<or> search atoms xs)"

text \<open>Whether \<open>str.match(text)\<close> is truthy (a match was found).\<close>

definition js_match :: "string \<Rightarrow> string \<Rightarrow> js_error + bool" where
  "js_match str text =
     (case compile_pattern text 0 of Inl e \<Rightarrow> Inl e | Inr atoms \<Rightarrow> Inr (search atoms str))"


section \<open>The attribution overlay\<close>

text \<open>
  \<open>options.attributionWidthOffset\<close> comes from the module Options, which is a parameter here.
  A width in pixels is kept as its number.
\<close>

record options =
  attributionWidthOffset :: real

datatype css_length = Px real

record attribution_record =
  attribution :: string
  score :: real
  bounds :: LatLngBounds
  minZoom :: real
  maxZoom :: real

text \<open>The element \<open>.esri-dynamic-attribution\<close>: its \<open>innerHTML\<close> and its \<open>style.maxWidth\<close>.\<close>

record element =
  innerHTML :: string
  maxWidth :: "css_length option"

text \<open>
  The attribution control: \<open>dynamic_attribution\<close> is what \<open>querySelector\<close> finds in its
  container, \<open>None\<close> when there is no such element.
\<close>

record control =
  dynamic_attribution :: "element option"

text \<open>
  The map: its attribution control (if it has one), the list stored in \<open>_esriAttributions\<close>
  (if one was stored), what \<open>getBounds()\<close>, \<open>getZoom()\<close> and \<open>getSize().x\<close> return, and the
  events fired so far (the name and the attribution string of each).
\<close>

record esri_map =
  attributionControl :: "control option"
  esriAttributions :: "attribution_record list option"
  getBounds :: LatLngBounds
  getZoom :: real
  getSize_x :: real
  fired :: "(string \<times> string) list"

definition calcAttributionWidth :: "options \<Rightarrow> esri_map \<Rightarrow> css_length" where
  "calcAttributionWidth opts m = Px (getSize_x m - attributionWidthOffset opts)"

text \<open>
  The loop of _updateMapAttribution over \<open>oldAttributions\<close>; the string is
  \<open>newAttributions\<close>. The match is the first operand of the condition, so it is evaluated
  for every record.
\<close>

fun appendAttributions ::
  "LatLngBounds \<Rightarrow> real \<Rightarrow> attribution_record list \<Rightarrow> string \<Rightarrow> js_error + string"
where
  "appendAttributions wrappedBounds zoom [] newAttributions = Inr newAttributions"
| "appendAttributions wrappedBounds zoom (a # rest) newAttributions =
     (let text = attribution a
      in case js_match newAttributions text of
           Inl e \<Rightarrow> Inl e
         | Inr found \<Rightarrow>
             appendAttributions wrappedBounds zoom rest
               (if \<not> found \<and> intersects (bounds a) wrappedBounds
                   \<and> zoom \<ge> minZoom a \<and> zoom \<le> maxZoom a
                then newAttributions @ ('', '' @ text)
                else newAttributions))"

text \<open>
  _updateMapAttribution on the map of the event. Nothing is written before the last
  statement that can fail, so a failure leaves the map as it was.
\<close>

definition updateMapAttribution :: "options \<Rightarrow> esri_map \<Rightarrow> js_error + esri_map" where
  "updateMapAttribution opts m =
     (case (attributionControl m, esriAttributions m) of
        (Some ctl, Some oldAttributions) \<Rightarrow>
          (let bnds = getBounds m;
               wrappedBounds = latLngBounds (wrap (getSouthWest bnds)) (wrap (getNorthEast bnds));
               zoom = getZoom m
           in case appendAttributions wrappedBounds zoom oldAttributions [] of
                Inl e \<Rightarrow> Inl e
              | Inr newAttributions \<Rightarrow>
                  (let newAttributions = drop 2 newAttributions
                   in case dynamic_attribution ctl of
                        None \<Rightarrow> Inl TypeError
                      | Some attributionElement \<Rightarrow>
                          Inr (m\<lparr>attributionControl :=
                                   Some (ctl\<lparr>dynamic_attribution :=
                                     Some (attributionElement
                                       \<lparr>innerHTML := newAttributions,
                                        maxWidth := Some (calcAttributionWidth opts m)\<rparr>)\<rparr>),
                                 fired := fired m @ [(''attributionupdated'', newAttributions)]\<rparr>)))
      | _ \<Rightarrow> Inr m)"

text \<open>The payload of the attribution lookup.\<close>

record coverageArea =
  bbox :: "real \<times> real \<times> real \<times> real"
  area_score :: real
  zoomMin :: real
  zoomMax :: real

record contributor =
  contributor_attribution :: string
  coverageAreas :: "coverageArea list"

record attributions =
  contributors :: "contributor list"

text \<open>The error object that the lookup passes to its callback.\<close>

record lookup_error =
  code :: int
  message :: string

text \<open>The inner loop of the callback: one record is pushed for each coverage area.\<close>

fun pushCoverageAreas ::
  "string \<Rightarrow> coverageArea list \<Rightarrow> attribution_record list \<Rightarrow> attribution_record list"
where
  "pushCoverageAreas text [] out = out"
| "pushCoverageAreas text (coverageArea # areas) out =
     (case bbox coverageArea of
        (b0, b1, b2, b3) \<Rightarrow>
          (let southWest = latLng b0 b1;
               northEast = latLng b2 b3
           in pushCoverageAreas text areas
                (out @ [\<lparr>attribution = text,
                         score = area_score coverageArea,
                         bounds = latLngBounds southWest northEast,
                         minZoom = zoomMin coverageArea,
                         maxZoom = zoomMax coverageArea\<rparr>])))"

text \<open>The outer loop, over the contributors.\<close>

fun pushContributors :: "contributor list \<Rightarrow> attribution_record list \<Rightarrow> attribution_record list" where
  "pushContributors [] out = out"
| "pushContributors (c # cs) out =
     pushContributors cs (pushCoverageAreas (contributor_attribution c) (coverageAreas c) out)"

text \<open>
  The callback that _getAttributionData gives to the lookup, run on the map as it is when
  the lookup completes. The result is the map after the callback and the failure, if any,
  that ended it. The sort is by descending score and keeps the order of equal scores.
\<close>

definition attributionCallback ::
  "options \<Rightarrow> esri_map \<Rightarrow> lookup_error option \<Rightarrow> attributions \<Rightarrow> esri_map \<times> js_error option"
where
  "attributionCallback opts m error payload =
     (case error of
        Some e \<Rightarrow> (m, None)
      | None \<Rightarrow>
          (let m1 = m\<lparr>esriAttributions := Some []\<rparr>;
               m2 = m1\<lparr>esriAttributions :=
                      map_option (pushContributors (contributors payload)) (esriAttributions m1)\<rparr>;
               m3 = m2\<lparr>esriAttributions :=
                      map_option (sort_key (\<lambda>a. - score a)) (esriAttributions m2)\<rparr>
           in case updateMapAttribution opts m3 of
                Inl e \<Rightarrow> (m3, Some e)
              | Inr m4 \<Rightarrow> (m4, None)))"

text \<open>
  _getAttributionData: \<open>jsonp\<close> is the external lookup, here the error and the payload with
  which it completes for a url (\<open>None\<close>: it never calls back).
\<close>

definition getAttributionData ::
  "(string \<Rightarrow> (lookup_error option \<times> attributions) option) \<Rightarrow> options \<Rightarrow> string \<Rightarrow> esri_map
     \<Rightarrow> esri_map \<times> js_error option"
where
  "getAttributionData jsonp opts url m =
     (case jsonp url of
        None \<Rightarrow> (m, None)
      | Some (error, payload) \<Rightarrow> attributionCallback opts m error payload)"


section \<open>Properties of the bounding-box converters\<close>

lemma latLngBounds_ordered: "ordered_corners (latLngBounds a b)"
  by (simp add: ordered_corners_def latLngBounds_def extend_bounds_def min_def max_def)

lemma latLngBounds_of_ordered:
  "lat a \<le> lat b \<Longrightarrow> lng a \<le> lng b \<Longrightarrow> latLngBounds a b = \<lparr>southWest = a, northEast = b\<rparr>"
  by (simp add: latLngBounds_def extend_bounds_def min_def max_def)

text \<open>
  C1, as stated, fails: an extent with a single "NaN" edge is not the all-"NaN" extent, and
  extentToBounds returns null for it, not a bounds object.
\<close>

theorem extentToBounds_single_NaN_edge:
  "extentToBounds \<lparr>xmin = NaN, ymin = Num 0, xmax = Num 1, ymax = Num 1, spatialReference = None\<rparr>
     = None"
  by (simp add: extentToBounds_def)

text \<open>
  C1, amended: extentToBounds returns null as soon as one of the four edges is "NaN" (so
  on the all-"NaN" extent too, without failing). When all four edges are numbers it returns
  the bounds that Leaflet builds from the corners (ymin, xmin) and (ymax, xmax); these are
  its south-west and north-east corners when xmin is at most xmax and ymin at most ymax.
\<close>

theorem extentToBounds_null_iff_NaN_edge:
  "(xmin e = NaN \<or> ymin e = NaN \<or> xmax e = NaN \<or> ymax e = NaN \<longrightarrow> extentToBounds e = None) \<and>
   (xmin e = Num x0 \<and> ymin e = Num y0 \<and> xmax e = Num x1 \<and> ymax e = Num y1 \<longrightarrow>
      extentToBounds e = Some (latLngBounds (latLng y0 x0) (latLng y1 x1)) \<and>
      (x0 \<le> x1 \<and> y0 \<le> y1 \<longrightarrow>
         extentToBounds e =
           Some \<lparr>southWest = \<lparr>lat = y0, lng = x0\<rparr>, northEast = \<lparr>lat = y1, lng = x1\<rparr>\<rparr>))"
  by (auto simp add: extentToBounds_def Let_def latLngBounds_of_ordered latLng_def)

text \<open>C1, amended, on the all-"NaN" extent and on the extent with edges 1, 2, 3, 4.\<close>

theorem extentToBounds_null_iff_NaN_edge_witness:
  "extentToBounds \<lparr>xmin = NaN, ymin = NaN, xmax = NaN, ymax = NaN, spatialReference = None\<rparr> = None \<and>
   extentToBounds \<lparr>xmin = Num 1, ymin = Num 2, xmax = Num 3, ymax = Num 4, spatialReference = None\<rparr>
     = Some \<lparr>southWest = \<lparr>lat = 2, lng = 1\<rparr>, northEast = \<lparr>lat = 4, lng = 3\<rparr>\<rparr>"
  using
    extentToBounds_null_iff_NaN_edge
      [of "\<lparr>xmin = NaN, ymin = NaN, xmax = NaN, ymax = NaN, spatialReference = None\<rparr>" 0 0 0 0]
    extentToBounds_null_iff_NaN_edge
      [of "\<lparr>xmin = Num 1, ymin = Num 2, xmax = Num 3, ymax = Num 4, spatialReference = None\<rparr>"
          1 2 3 4]
  by auto

text \<open>
  C2: for every bounds B, a south-west corner with a north-east corner,
  extentToBounds(boundsToExtent(B)) is a bounds object with the corners of B. This holds
  for every record whose corners are in this order, and so for every bounds object that
  Leaflet builds from two points.
\<close>

theorem extentToBounds_boundsToExtent:
  "(ordered_corners B \<longrightarrow> extentToBounds (boundsToExtent B) = Some B) \<and>
   extentToBounds (boundsToExtent (latLngBounds corner1 corner2)) = Some (latLngBounds corner1 corner2)"
proof -
  have "extentToBounds (boundsToExtent b) = Some b" if "ordered_corners b" for b
    using that
    by (simp add: extentToBounds_def boundsToExtent_def latLng_def latLngBounds_def
        extend_bounds_def getSouthWest_def getNorthEast_def ordered_corners_def min_def max_def
        Let_def)
  then show ?thesis
    using latLngBounds_ordered by blast
qed

text \<open>C2 on the bounds that Leaflet builds from the points (40, -75) and (39, -74).\<close>

theorem extentToBounds_boundsToExtent_witness:
  "ordered_corners (latLngBounds (latLng 40 (-75)) (latLng 39 (-74))) \<and>
   extentToBounds (boundsToExtent (latLngBounds (latLng 40 (-75)) (latLng 39 (-74))))
     = Some \<lparr>southWest = \<lparr>lat = 39, lng = -75\<rparr>, northEast = \<lparr>lat = 40, lng = -74\<rparr>\<rparr>"
proof -
  have o: "ordered_corners (latLngBounds (latLng 40 (-75)) (latLng 39 (-74)))"
    by (simp add: ordered_corners_def latLngBounds_def extend_bounds_def latLng_def)
  from extentToBounds_boundsToExtent [of "latLngBounds (latLng 40 (-75)) (latLng 39 (-74))"] o
  show ?thesis
    by (simp add: latLngBounds_def extend_bounds_def latLng_def)
qed


section \<open>Properties of geojsonTypeToArcGIS and cleanUrl\<close>

text \<open>
  C6: geojsonTypeToArcGIS is the finite map with the six entries below, and it is undefined
  exactly on the inputs that are none of the six type names.
\<close>

theorem geojsonTypeToArcGIS_table:
  "geojsonTypeToArcGIS =
     map_of [(''Point'', ''esriGeometryPoint''), (''MultiPoint'', ''esriGeometryMultipoint''),
       (''LineString'', ''esriGeometryPolyline''), (''MultiLineString'', ''esriGeometryPolyline''),
       (''Polygon'', ''esriGeometryPolygon''), (''MultiPolygon'', ''esriGeometryPolygon'')] \<and>
   (geojsonTypeToArcGIS t = None) =
     (t \<notin> {''Point'', ''MultiPoint'', ''LineString'', ''MultiLineString'', ''Polygon'',
            ''MultiPolygon''})"
proof
  show "geojsonTypeToArcGIS =
     map_of [(''Point'', ''esriGeometryPoint''), (''MultiPoint'', ''esriGeometryMultipoint''),
       (''LineString'', ''esriGeometryPolyline''), (''MultiLineString'', ''esriGeometryPolyline''),
       (''Polygon'', ''esriGeometryPolygon''), (''MultiPolygon'', ''esriGeometryPolygon'')]"
    by (rule ext) (simp add: geojsonTypeToArcGIS_def)
  show "(geojsonTypeToArcGIS t = None) =
     (t \<notin> {''Point'', ''MultiPoint'', ''LineString'', ''MultiLineString'', ''Polygon'',
            ''MultiPolygon''})"
    by (simp add: geojsonTypeToArcGIS_def)
qed

text \<open>C6 on a name outside the six: the result is undefined.\<close>

theorem geojsonTypeToArcGIS_table_witness:
  "geojsonTypeToArcGIS ''GeometryCollection'' = None"
  using geojsonTypeToArcGIS_table [of "''GeometryCollection''"] by simp

lemma dropWhile_id: "xs \<noteq> [] \<Longrightarrow> \<not> P (hd xs) \<Longrightarrow> dropWhile P xs = xs"
  by (cases xs) auto

lemma trim_fixed: "s \<noteq> [] \<Longrightarrow> \<not> is_space (hd s) \<Longrightarrow> \<not> is_space (last s) \<Longrightarrow> trim s = s"
  by (simp add: trim_def dropWhile_id hd_rev)

lemma trim_last: "trim s \<noteq> [] \<Longrightarrow> \<not> is_space (last (trim s))"
  by (simp add: trim_def last_rev hd_dropWhile)

lemma trim_hd:
  assumes ne: "trim s \<noteq> []"
  shows "\<not> is_space (hd (trim s))"
proof -
  let ?d = "dropWhile is_space s"
  have split: "?d = trim s @ rev (takeWhile is_space (rev ?d))"
    unfolding trim_def by (metis rev_append rev_rev_ident takeWhile_dropWhile_id)
  with ne have "hd ?d = hd (trim s)"
    by (metis hd_append2)
  moreover from split ne have "?d \<noteq> []"
    by (metis append_is_Nil_conv)
  ultimately show ?thesis
    using hd_dropWhile [of is_space s] by simp
qed

lemma slash_not_space: "\<not> is_space (CHR ''/'')"
  by (simp add: is_space_def)

lemma cleanUrl_fixed:
  "s \<noteq> [] \<Longrightarrow> \<not> is_space (hd s) \<Longrightarrow> last s = CHR ''/'' \<Longrightarrow> cleanUrl s = s"
  by (simp add: cleanUrl_def trim_fixed slash_not_space)

lemma cleanUrl_idem: "cleanUrl (cleanUrl u) = cleanUrl u"
proof (cases "trim u = [] \<or> last (trim u) \<noteq> CHR ''/''")
  case True
  then have r: "cleanUrl u = trim u @ ''/''"
    by (simp add: cleanUrl_def)
  have "\<not> is_space (hd (trim u @ ''/''))"
    using trim_hd [of u] by (cases "trim u = []") (simp_all add: slash_not_space)
  then have "cleanUrl (trim u @ ''/'') = trim u @ ''/''"
    by (intro cleanUrl_fixed) simp_all
  with r show ?thesis by simp
next
  case False
  then have r: "cleanUrl u = trim u"
    by (simp add: cleanUrl_def)
  from False have "cleanUrl (trim u) = trim u"
    by (intro cleanUrl_fixed trim_hd) simp_all
  with r show ?thesis by simp
qed

lemma trailing_cleanUrl:
  "trailing_separators (cleanUrl u) = max 1 (trailing_separators (trim u))"
proof (cases "trim u = []")
  case True
  then show ?thesis by (simp add: cleanUrl_def trailing_separators_def)
next
  case False
  then have "rev (trim u) \<noteq> []" by simp
  then obtain x xs where x: "rev (trim u) = x # xs" by (cases "rev (trim u)") auto
  with False have "last (trim u) = x" by (metis list.sel(1) hd_rev)
  with x False show ?thesis
    by (simp add: cleanUrl_def trailing_separators_def)
qed

text \<open>
  C7, as stated, fails: a url that ends with two path separators keeps both, so the result
  does not end with exactly one.
\<close>

theorem cleanUrl_keeps_two_separators:
  "cleanUrl ''http://x//'' = ''http://x//'' \<and> trailing_separators (cleanUrl ''http://x//'') = 2"
  by (simp add: cleanUrl_def trim_def is_space_def trailing_separators_def)

text \<open>
  C7, amended: cleanUrl trims the surrounding white space and guarantees at least one
  trailing path separator: it appends one exactly when the trimmed url does not end with
  one, and keeps the separators that are there. cleanUrl(" http://x ") and
  cleanUrl("http://x/") are both "http://x/", and cleanUrl is idempotent on every string.
\<close>

theorem cleanUrl_idempotent_trailing_separator:
  "cleanUrl '' http://x '' = ''http://x/'' \<and> cleanUrl ''http://x/'' = ''http://x/'' \<and>
   cleanUrl (cleanUrl u) = cleanUrl u \<and>
   cleanUrl u = (if trim u = [] \<or> last (trim u) \<noteq> CHR ''/'' then trim u @ ''/'' else trim u) \<and>
   trailing_separators (cleanUrl u) = max 1 (trailing_separators (trim u)) \<and>
   (trim u \<noteq> [] \<longrightarrow> \<not> is_space (hd (trim u)) \<and> \<not> is_space (last (trim u)))"
proof -
  have "cleanUrl '' http://x '' = ''http://x/''"
    by (simp add: cleanUrl_def trim_def is_space_def)
  moreover have "cleanUrl ''http://x/'' = ''http://x/''"
    by (simp add: cleanUrl_def trim_def is_space_def)
  moreover have
    "cleanUrl u = (if trim u = [] \<or> last (trim u) \<noteq> CHR ''/'' then trim u @ ''/'' else trim u)"
    by (simp add: cleanUrl_def)
  ultimately show ?thesis
    using cleanUrl_idem [of u] trailing_cleanUrl [of u] trim_hd [of u] trim_last [of u]
    by blast
qed

text \<open>C7, amended, on a url with white space on both sides and no trailing separator.\<close>

theorem cleanUrl_idempotent_trailing_separator_witness:
  "trim '' http://x/y  '' \<noteq> [] \<and> cleanUrl '' http://x/y  '' = ''http://x/y/'' \<and>
   cleanUrl (cleanUrl '' http://x/y  '') = ''http://x/y/'' \<and>
   trailing_separators (cleanUrl '' http://x/y  '') = 1"
proof -
  have t: "trim '' http://x/y  '' = ''http://x/y''"
    by (simp add: trim_def is_space_def)
  from cleanUrl_idempotent_trailing_separator [of "'' http://x/y  ''"] show ?thesis
    unfolding t by (auto simp add: trailing_separators_def)
qed


section \<open>Properties of the identifier resolution and of responseToFeatureCollection\<close>

lemma pushFeatures_rev:
  "n \<le> length fs \<Longrightarrow> pushFeatures conv fs n out = out @ map conv (rev (take n fs))"
proof (induction n arbitrary: out)
  case 0
  then show ?case by simp
next
  case (Suc n)
  then have "take (Suc n) fs = take n fs @ [fs ! n]"
    by (simp add: take_Suc_conv_app_nth)
  with Suc show ?case by simp
qed

lemma responseToFeatureCollection_list:
  assumes "features r = Some fs \<or> (features r = None \<and> results r = Some fs)"
  shows "responseToFeatureCollection a2g r idAttribute =
     Inr \<lparr>collection_type = ''FeatureCollection'',
          collection_features =
            map (\<lambda>f. a2g f (js_or (if truthy idAttribute then idAttribute
                                     else findIdAttributeFromResponse r)
                                    (findIdAttributeFromFeature f)))
                (rev fs)\<rparr>"
  using assms
  by (auto simp add: responseToFeatureCollection_def Let_def pushFeatures_rev arcgisToGeoJSON_def)

lemma firstOidField_split:
  "fs = pre @ f # post \<Longrightarrow> \<forall>g \<in> set pre. type g \<noteq> ''esriFieldTypeOID'' \<Longrightarrow>
   type f = ''esriFieldTypeOID'' \<Longrightarrow> firstOidField fs = Some (name f)"
  by (induction pre arbitrary: fs) auto

lemma firstOidField_none:
  "\<forall>g \<in> set fs. type g \<noteq> ''esriFieldTypeOID'' \<Longrightarrow> firstOidField fs = None"
  by (induction fs) auto

lemma firstKnownField_split:
  "fs = pre @ f # post \<Longrightarrow> \<forall>g \<in> set pre. \<not> knownFieldNames (name g) \<Longrightarrow>
   knownFieldNames (name f) \<Longrightarrow> firstKnownField fs = Some (name f)"
  by (induction pre arbitrary: fs) auto

lemma firstKnownField_none:
  "\<forall>g \<in> set fs. \<not> knownFieldNames (name g) \<Longrightarrow> firstKnownField fs = None"
  by (induction fs) auto

lemma firstKnownKey_split:
  "keys = pre @ k # post \<Longrightarrow> \<forall>g \<in> set pre. \<not> knownFieldNames g \<Longrightarrow>
   knownFieldNames k \<Longrightarrow> firstKnownKey keys = Some k"
  by (induction pre arbitrary: keys) auto

lemma firstKnownKey_none:
  "\<forall>g \<in> set keys. \<not> knownFieldNames g \<Longrightarrow> firstKnownKey keys = None"
  by (induction keys) auto

text \<open>
  C3: for a response whose feature list (under \<open>features\<close>, or under \<open>results\<close> when
  \<open>features\<close> is absent) has N elements, responseToFeatureCollection returns an object of
  type "FeatureCollection" with exactly N features; the output is the per-feature
  conversion of the input in reverse order, element i being the conversion of input
  element N-1-i.
\<close>

theorem responseToFeatureCollection_reversed:
  assumes "features r = Some fs \<or> (features r = None \<and> results r = Some fs)"
  shows "\<exists>fc. responseToFeatureCollection a2g r idAttribute = Inr fc \<and>
     collection_type fc = ''FeatureCollection'' \<and>
     length (collection_features fc) = length fs \<and>
     collection_features fc =
       map (\<lambda>f. arcgisToGeoJSON a2g f
                  (js_or (if truthy idAttribute then idAttribute else findIdAttributeFromResponse r)
                         (findIdAttributeFromFeature f)))
           (rev fs) \<and>
     (\<forall>i < length fs.
        collection_features fc ! i =
          arcgisToGeoJSON a2g (fs ! (length fs - 1 - i))
            (js_or (if truthy idAttribute then idAttribute else findIdAttributeFromResponse r)
                   (findIdAttributeFromFeature (fs ! (length fs - 1 - i)))))"
  using responseToFeatureCollection_list [OF assms, of a2g idAttribute]
  by (simp add: arcgisToGeoJSON_def rev_nth)

text \<open>
  C3 on a response with two features and no metadata, the converter pairing each feature
  with the identifier field it is given: the second feature comes first.
\<close>

theorem responseToFeatureCollection_reversed_witness:
  "responseToFeatureCollection Pair
     \<lparr>objectIdFieldName = None, response_fields = None,
      features = Some [\<lparr>attributes = Some [(''FID'', JNum 1)], feature_geometry = JNull\<rparr>,
                       \<lparr>attributes = Some [(''name'', JStr ''a''), (''ObjectId'', JNum 2)],
                        feature_geometry = JNull\<rparr>],
      results = None\<rparr> None
   = Inr \<lparr>collection_type = ''FeatureCollection'',
          collection_features =
            [(\<lparr>attributes = Some [(''name'', JStr ''a''), (''ObjectId'', JNum 2)],
               feature_geometry = JNull\<rparr>, Some ''ObjectId''),
             (\<lparr>attributes = Some [(''FID'', JNum 1)], feature_geometry = JNull\<rparr>, Some ''FID'')]\<rparr>"
proof -
  let ?f1 = "\<lparr>attributes = Some [(''FID'', JNum 1)], feature_geometry = JNull\<rparr>"
  let ?f2 = "\<lparr>attributes = Some [(''name'', JStr ''a''), (''ObjectId'', JNum 2)],
              feature_geometry = JNull\<rparr>"
  let ?r = "\<lparr>objectIdFieldName = None, response_fields = None, features = Some [?f1, ?f2],
             results = None\<rparr>"
  have "features ?r = Some [?f1, ?f2] \<or> (features ?r = None \<and> results ?r = Some [?f1, ?f2])"
    by simp
  from responseToFeatureCollection_reversed [OF this, of Pair None]
  obtain fc where fc: "responseToFeatureCollection Pair ?r None = Inr fc"
    and ty: "collection_type fc = ''FeatureCollection''"
    and fs: "collection_features fc =
       map (\<lambda>f. arcgisToGeoJSON Pair f
                  (js_or (if truthy None then None else findIdAttributeFromResponse ?r)
                         (findIdAttributeFromFeature f)))
           (rev [?f1, ?f2])"
    by blast
  from fs have "collection_features fc = [(?f2, Some ''ObjectId''), (?f1, Some ''FID'')]"
    by (simp add: arcgisToGeoJSON_def js_or_def truthy_def findIdAttributeFromResponse_def
        findIdAttributeFromFeature_def knownFieldNames_def toUpperCase_def)
  with ty have "fc = \<lparr>collection_type = ''FeatureCollection'',
      collection_features = [(?f2, Some ''ObjectId''), (?f1, Some ''FID'')]\<rparr>"
    by simp
  with fc show ?thesis by simp
qed

text \<open>
  C10: responseToFeatureCollection returns a collection only when the response has a list
  under \<open>features\<close> or \<open>results\<close>: with neither key it fails on the read of the length; with
  an empty list it returns a FeatureCollection without features.
\<close>

theorem responseToFeatureCollection_needs_list:
  "(features r = None \<and> results r = None \<longrightarrow>
      responseToFeatureCollection a2g r idAttribute = Inl TypeError) \<and>
   ((\<exists>fc. responseToFeatureCollection a2g r idAttribute = Inr fc) =
      (features r \<noteq> None \<or> results r \<noteq> None)) \<and>
   (features r = Some [] \<or> (features r = None \<and> results r = Some []) \<longrightarrow>
      responseToFeatureCollection a2g r idAttribute =
        Inr \<lparr>collection_type = ''FeatureCollection'', collection_features = []\<rparr>)"
  by (auto simp add: responseToFeatureCollection_def Let_def split: option.splits)

text \<open>C10 on a response with neither key and on a response with an empty list of results.\<close>

theorem responseToFeatureCollection_needs_list_witness:
  "responseToFeatureCollection Pair
     \<lparr>objectIdFieldName = Some ''OBJECTID'', response_fields = Some [], features = None,
      results = None\<rparr> None = Inl TypeError \<and>
   responseToFeatureCollection Pair
     \<lparr>objectIdFieldName = None, response_fields = None, features = None, results = Some []\<rparr>
     (Some ''FID'')
   = Inr \<lparr>collection_type = ''FeatureCollection'', collection_features = []\<rparr>"
  using
    responseToFeatureCollection_needs_list
      [of "\<lparr>objectIdFieldName = Some ''OBJECTID'', response_fields = Some [], features = None,
            results = None\<rparr>" Pair None]
    responseToFeatureCollection_needs_list
      [of "\<lparr>objectIdFieldName = None, response_fields = None, features = None,
            results = Some []\<rparr>" Pair "Some ''FID''"]
  by simp

text \<open>
  C4, as stated, fails in (d): on a response without metadata whose first feature has an
  attribute key that matches the pattern, _findIdAttributeFromResponse returns undefined;
  it does not look at the features.
\<close>

theorem findIdAttributeFromResponse_ignores_features:
  "findIdAttributeFromResponse
     \<lparr>objectIdFieldName = None, response_fields = None,
      features = Some [\<lparr>attributes = Some [(''OBJECTID'', JNum 1)], feature_geometry = JNull\<rparr>],
      results = None\<rparr> = None \<and>
   findIdAttributeFromFeature \<lparr>attributes = Some [(''OBJECTID'', JNum 1)], feature_geometry = JNull\<rparr>
     = Some ''OBJECTID''"
  by (simp add: findIdAttributeFromResponse_def findIdAttributeFromFeature_def truthy_def
      knownFieldNames_def toUpperCase_def)

text \<open>
  C4, amended: _findIdAttributeFromResponse resolves the identifier field name in this
  order, first match winning: (a) the response's non-empty objectIdFieldName; (b) the name
  of the first field of type "esriFieldTypeOID", unless that name is empty; (c) when no
  field has that type, or the first that has it has an empty name, the name of the first
  field whose name matches the pattern. When no name matches either, it returns undefined
  if no field has the type, and the empty name if the first field of the type has it. It
  returns undefined (d) when the response has no metadata, whatever its features are. The
  scan of attribute keys against the same pattern is _findIdAttributeFromFeature's: it
  returns the first matching key of the feature it is given, or undefined, and
  responseToFeatureCollection applies it to each feature, on that feature's own keys,
  whenever no identifier came from its argument or from the response.
\<close>

theorem findIdAttributeFromResponse_order:
  "(truthy (objectIdFieldName r) \<longrightarrow> findIdAttributeFromResponse r = objectIdFieldName r) \<and>
   (\<not> truthy (objectIdFieldName r) \<and> response_fields r = Some (pre @ f # post) \<and>
    (\<forall>g \<in> set pre. type g \<noteq> ''esriFieldTypeOID'') \<and> type f = ''esriFieldTypeOID'' \<and>
    name f \<noteq> [] \<longrightarrow>
      findIdAttributeFromResponse r = Some (name f)) \<and>
   (\<not> truthy (objectIdFieldName r) \<and> response_fields r = Some fs \<and>
    ((\<forall>g \<in> set fs. type g \<noteq> ''esriFieldTypeOID'') \<or>
     (fs = pre @ f # post \<and> (\<forall>g \<in> set pre. type g \<noteq> ''esriFieldTypeOID'') \<and>
      type f = ''esriFieldTypeOID'' \<and> name f = [])) \<and>
    fs = npre @ n # npost \<and> (\<forall>g \<in> set npre. \<not> knownFieldNames (name g)) \<and>
    knownFieldNames (name n) \<longrightarrow>
      findIdAttributeFromResponse r = Some (name n)) \<and>
   (\<not> truthy (objectIdFieldName r) \<and> response_fields r = Some fs \<and>
    (\<forall>g \<in> set fs. type g \<noteq> ''esriFieldTypeOID'' \<and> \<not> knownFieldNames (name g)) \<longrightarrow>
      findIdAttributeFromResponse r = None) \<and>
   (\<not> truthy (objectIdFieldName r) \<and> response_fields r = Some (pre @ f # post) \<and>
    (\<forall>g \<in> set pre. type g \<noteq> ''esriFieldTypeOID'') \<and> type f = ''esriFieldTypeOID'' \<and>
    name f = [] \<and> (\<forall>g \<in> set (pre @ f # post). \<not> knownFieldNames (name g)) \<longrightarrow>
      findIdAttributeFromResponse r = Some []) \<and>
   (\<not> truthy (objectIdFieldName r) \<and> response_fields r = None \<longrightarrow>
      findIdAttributeFromResponse r = None) \<and>
   (attributes ft = Some kvs \<and> map fst kvs = kpre @ k # kpost \<and>
    (\<forall>x \<in> set kpre. \<not> knownFieldNames x) \<and> knownFieldNames k \<longrightarrow>
      findIdAttributeFromFeature ft = Some k) \<and>
   (attributes ft = None \<or>
    (attributes ft = Some kvs \<and> (\<forall>x \<in> set (map fst kvs). \<not> knownFieldNames x)) \<longrightarrow>
      findIdAttributeFromFeature ft = None) \<and>
   (\<not> truthy idAttribute \<and> \<not> truthy (findIdAttributeFromResponse r) \<and>
    (features r = Some fts \<or> (features r = None \<and> results r = Some fts)) \<longrightarrow>
      responseToFeatureCollection a2g r idAttribute =
        Inr \<lparr>collection_type = ''FeatureCollection'',
             collection_features = map (\<lambda>x. a2g x (findIdAttributeFromFeature x)) (rev fts)\<rparr>)"
proof -
  have feat: "\<not> truthy idAttribute \<and> \<not> truthy (findIdAttributeFromResponse r) \<and>
    (features r = Some fts \<or> (features r = None \<and> results r = Some fts)) \<longrightarrow>
      responseToFeatureCollection a2g r idAttribute =
        Inr \<lparr>collection_type = ''FeatureCollection'',
             collection_features = map (\<lambda>x. a2g x (findIdAttributeFromFeature x)) (rev fts)\<rparr>"
    using responseToFeatureCollection_list [of r fts a2g idAttribute]
    by (auto simp add: js_or_def)
  have key: "attributes ft = Some kvs \<and> map fst kvs = kpre @ k # kpost \<and>
    (\<forall>x \<in> set kpre. \<not> knownFieldNames x) \<and> knownFieldNames k \<longrightarrow>
      findIdAttributeFromFeature ft = Some k"
    using firstKnownKey_split [of "map fst kvs" kpre k kpost]
    by (simp add: findIdAttributeFromFeature_def)
  have nokey: "attributes ft = None \<or>
    (attributes ft = Some kvs \<and> (\<forall>x \<in> set (map fst kvs). \<not> knownFieldNames x)) \<longrightarrow>
      findIdAttributeFromFeature ft = None"
    using firstKnownKey_none [of "map fst kvs"]
    by (auto simp add: findIdAttributeFromFeature_def)
  have a: "truthy (objectIdFieldName r) \<longrightarrow> findIdAttributeFromResponse r = objectIdFieldName r"
    by (simp add: findIdAttributeFromResponse_def)
  have b: "\<not> truthy (objectIdFieldName r) \<and> response_fields r = Some (pre @ f # post) \<and>
    (\<forall>g \<in> set pre. type g \<noteq> ''esriFieldTypeOID'') \<and> type f = ''esriFieldTypeOID'' \<and>
    name f \<noteq> [] \<longrightarrow>
      findIdAttributeFromResponse r = Some (name f)"
    by (auto simp add: findIdAttributeFromResponse_def Let_def firstOidField_split truthy_def)
  have c: "\<not> truthy (objectIdFieldName r) \<and> response_fields r = Some fs \<and>
    ((\<forall>g \<in> set fs. type g \<noteq> ''esriFieldTypeOID'') \<or>
     (fs = pre @ f # post \<and> (\<forall>g \<in> set pre. type g \<noteq> ''esriFieldTypeOID'') \<and>
      type f = ''esriFieldTypeOID'' \<and> name f = [])) \<and>
    fs = npre @ n # npost \<and> (\<forall>g \<in> set npre. \<not> knownFieldNames (name g)) \<and>
    knownFieldNames (name n) \<longrightarrow>
      findIdAttributeFromResponse r = Some (name n)"
  proof (intro impI, elim conjE)
    assume oid: "\<not> truthy (objectIdFieldName r)" and fs: "response_fields r = Some fs"
      and n: "fs = npre @ n # npost" "\<forall>g \<in> set npre. \<not> knownFieldNames (name g)"
        "knownFieldNames (name n)"
      and o: "(\<forall>g \<in> set fs. type g \<noteq> ''esriFieldTypeOID'') \<or>
        (fs = pre @ f # post \<and> (\<forall>g \<in> set pre. type g \<noteq> ''esriFieldTypeOID'') \<and>
         type f = ''esriFieldTypeOID'' \<and> name f = [])"
    from n have known: "firstKnownField fs = Some (name n)"
      by (rule firstKnownField_split)
    from o have "\<not> truthy (firstOidField fs)"
    proof
      assume "\<forall>g \<in> set fs. type g \<noteq> ''esriFieldTypeOID''"
      then show ?thesis by (simp add: firstOidField_none truthy_def)
    next
      assume "fs = pre @ f # post \<and> (\<forall>g \<in> set pre. type g \<noteq> ''esriFieldTypeOID'') \<and>
         type f = ''esriFieldTypeOID'' \<and> name f = []"
      then have "firstOidField fs = Some []"
        using firstOidField_split [of fs pre f post] by simp
      then show ?thesis by (simp add: truthy_def)
    qed
    with oid fs known show "findIdAttributeFromResponse r = Some (name n)"
      by (simp add: findIdAttributeFromResponse_def Let_def)
  qed
  have d: "\<not> truthy (objectIdFieldName r) \<and> response_fields r = Some fs \<and>
    (\<forall>g \<in> set fs. type g \<noteq> ''esriFieldTypeOID'' \<and> \<not> knownFieldNames (name g)) \<longrightarrow>
      findIdAttributeFromResponse r = None"
    by (auto simp add: findIdAttributeFromResponse_def Let_def firstOidField_none
        firstKnownField_none truthy_def)
  have e: "\<not> truthy (objectIdFieldName r) \<and> response_fields r = Some (pre @ f # post) \<and>
    (\<forall>g \<in> set pre. type g \<noteq> ''esriFieldTypeOID'') \<and> type f = ''esriFieldTypeOID'' \<and>
    name f = [] \<and> (\<forall>g \<in> set (pre @ f # post). \<not> knownFieldNames (name g)) \<longrightarrow>
      findIdAttributeFromResponse r = Some []"
  proof (intro impI, elim conjE)
    assume oid: "\<not> truthy (objectIdFieldName r)"
      and fs: "response_fields r = Some (pre @ f # post)"
      and o: "\<forall>g \<in> set pre. type g \<noteq> ''esriFieldTypeOID''" "type f = ''esriFieldTypeOID''"
        "name f = []"
      and k: "\<forall>g \<in> set (pre @ f # post). \<not> knownFieldNames (name g)"
    from o have "firstOidField (pre @ f # post) = Some []"
      using firstOidField_split [of "pre @ f # post" pre f post] by simp
    moreover from k have "firstKnownField (pre @ f # post) = None"
      by (rule firstKnownField_none)
    ultimately show "findIdAttributeFromResponse r = Some []"
      using oid fs by (simp add: findIdAttributeFromResponse_def Let_def truthy_def)
  qed
  have nometa: "\<not> truthy (objectIdFieldName r) \<and> response_fields r = None \<longrightarrow>
      findIdAttributeFromResponse r = None"
    by (simp add: findIdAttributeFromResponse_def)
  from a b c d e nometa key nokey feat show ?thesis
    by blast
qed

text \<open>
  C4, amended, on four responses: one with an explicit objectIdFieldName, one whose second
  field has the type OID, one without such a field whose second field is named "fid", and
  one whose first field has the type OID and an empty name and whose second field is named
  "FID".
\<close>

theorem findIdAttributeFromResponse_order_witness:
  "findIdAttributeFromResponse
     \<lparr>objectIdFieldName = Some ''GID'',
      response_fields = Some [\<lparr>name = ''OBJECTID'', type = ''esriFieldTypeOID''\<rparr>],
      features = None, results = None\<rparr> = Some ''GID'' \<and>
   findIdAttributeFromResponse
     \<lparr>objectIdFieldName = None,
      response_fields = Some [\<lparr>name = ''ID'', type = ''esriFieldTypeString''\<rparr>,
                              \<lparr>name = ''OBJECTID'', type = ''esriFieldTypeOID''\<rparr>],
      features = None, results = None\<rparr> = Some ''OBJECTID'' \<and>
   findIdAttributeFromResponse
     \<lparr>objectIdFieldName = None,
      response_fields = Some [\<lparr>name = ''NAME'', type = ''esriFieldTypeString''\<rparr>,
                              \<lparr>name = ''fid'', type = ''esriFieldTypeInteger''\<rparr>],
      features = None, results = None\<rparr> = Some ''fid'' \<and>
   findIdAttributeFromResponse
     \<lparr>objectIdFieldName = None,
      response_fields = Some [\<lparr>name = [], type = ''esriFieldTypeOID''\<rparr>,
                              \<lparr>name = ''FID'', type = ''esriFieldTypeInteger''\<rparr>],
      features = None, results = None\<rparr> = Some ''FID''"
  using
    findIdAttributeFromResponse_order
      [where r = "\<lparr>objectIdFieldName = Some ''GID'',
                    response_fields = Some [\<lparr>name = ''OBJECTID'', type = ''esriFieldTypeOID''\<rparr>],
                    features = None, results = None\<rparr>"]
    findIdAttributeFromResponse_order
      [where r = "\<lparr>objectIdFieldName = None,
                    response_fields = Some [\<lparr>name = ''ID'', type = ''esriFieldTypeString''\<rparr>,
                                            \<lparr>name = ''OBJECTID'', type = ''esriFieldTypeOID''\<rparr>],
                    features = None, results = None\<rparr>"
         and pre = "[\<lparr>name = ''ID'', type = ''esriFieldTypeString''\<rparr>]"
         and f = "\<lparr>name = ''OBJECTID'', type = ''esriFieldTypeOID''\<rparr>" and post = "[]"]
    findIdAttributeFromResponse_order
      [where r = "\<lparr>objectIdFieldName = None,
                    response_fields = Some [\<lparr>name = ''NAME'', type = ''esriFieldTypeString''\<rparr>,
                                            \<lparr>name = ''fid'', type = ''esriFieldTypeInteger''\<rparr>],
                    features = None, results = None\<rparr>"
         and fs = "[\<lparr>name = ''NAME'', type = ''esriFieldTypeString''\<rparr>,
                    \<lparr>name = ''fid'', type = ''esriFieldTypeInteger''\<rparr>]"
         and npre = "[\<lparr>name = ''NAME'', type = ''esriFieldTypeString''\<rparr>]"
         and n = "\<lparr>name = ''fid'', type = ''esriFieldTypeInteger''\<rparr>" and npost = "[]"]
    findIdAttributeFromResponse_order
      [where r = "\<lparr>objectIdFieldName = None,
                    response_fields = Some [\<lparr>name = [], type = ''esriFieldTypeOID''\<rparr>,
                                            \<lparr>name = ''FID'', type = ''esriFieldTypeInteger''\<rparr>],
                    features = None, results = None\<rparr>"
         and fs = "[\<lparr>name = [], type = ''esriFieldTypeOID''\<rparr>,
                    \<lparr>name = ''FID'', type = ''esriFieldTypeInteger''\<rparr>]"
         and pre = "[]" and f = "\<lparr>name = [], type = ''esriFieldTypeOID''\<rparr>"
         and post = "[\<lparr>name = ''FID'', type = ''esriFieldTypeInteger''\<rparr>]"
         and npre = "[\<lparr>name = [], type = ''esriFieldTypeOID''\<rparr>]"
         and n = "\<lparr>name = ''FID'', type = ''esriFieldTypeInteger''\<rparr>" and npost = "[]"]
  by (simp add: truthy_def knownFieldNames_def toUpperCase_def)


section \<open>Properties of _setGeometry\<close>

text \<open>
  C5, as stated, fails: \<open>null\<close> (or \<open>undefined\<close>) is none of the recognized shapes, and
  _setGeometry fails on it with a TypeError instead of warning and returning undefined.
\<close>

theorem setGeometry_null_fails:
  "setGeometry coordinates_converter (Some []) Nullish = Inl TypeError"
  by (simp add: setGeometry_def)

text \<open>
  C5, amended: _setGeometry returns a {geometry, geometryType} pair for a bounds object,
  and for any other input when the object that the cascade arrives at (a marker's point, a
  point as a GeoJSON Point, the geometry of the first layer of a GeoJSON layer, what
  toGeoJSON returns, the geometry of a Feature) has the type Point, LineString, Polygon or
  MultiPolygon and the external converter geojsonToArcGIS returns for it; where the
  converter fails, _setGeometry fails with it, for the first geometry of a GeoJSON layer
  whatever its type is. When the object has another type or none, also inside a Feature
  or (the converter returning) a layer, and on a primitive value, it warns and returns
  undefined. On \<open>null\<close> and \<open>undefined\<close>, on a GeoJSON layer without layers and on a Feature
  without geometry it fails with a TypeError.
\<close>

theorem setGeometry_shapes:
  "setGeometry g2a c (Bounds b) =
     Inr (c, Some \<lparr>geometry = Some (Envelope (boundsToExtent b)),
                   geometryType = Some ''esriGeometryEnvelope''\<rparr>) \<and>
   setGeometry g2a c (Marker p) = setGeometry g2a c (LatLngObject p) \<and>
   setGeometry g2a c (LatLngObject p) =
     setGeometry g2a c
       (Object (GeoJSON (Some ''Point'') (Some (JArr [JNum (lng p), JNum (lat p)])) None)) \<and>
   setGeometry g2a c (VectorLayer g) = setGeometry g2a c (Object g) \<and>
   setGeometry g2a c (GeoJSONLayer (g # layers)) =
     (case g2a g None of Inl e \<Rightarrow> Inl e | Inr converted \<Rightarrow> setGeometry g2a c (Object g)) \<and>
   setGeometry g2a c (GeoJSONLayer []) = Inl TypeError \<and>
   setGeometry g2a c Nullish = Inl TypeError \<and>
   setGeometry g2a c Primitive = Inr (warn c invalid_geometry_message, None) \<and>
   (t \<in> {''Point'', ''LineString'', ''Polygon'', ''MultiPolygon''} \<longrightarrow>
      setGeometry g2a c (Object (GeoJSON (Some t) co ge)) =
        (case g2a (GeoJSON (Some t) co ge) None of
           Inl e \<Rightarrow> Inl e
         | Inr converted \<Rightarrow>
             Inr (c, Some \<lparr>geometry = Some (Converted converted),
                           geometryType = geojsonTypeToArcGIS t\<rparr>)) \<and>
      setGeometry g2a c (Object (GeoJSON (Some ''Feature'') co' (Some (GeoJSON (Some t) co ge)))) =
        (case g2a (GeoJSON (Some t) co ge) None of
           Inl e \<Rightarrow> Inl e
         | Inr converted \<Rightarrow>
             Inr (c, Some \<lparr>geometry = Some (Converted converted),
                           geometryType = geojsonTypeToArcGIS t\<rparr>))) \<and>
   (ty \<notin> {Some ''Point'', Some ''LineString'', Some ''Polygon'', Some ''MultiPolygon''} \<longrightarrow>
      (ty \<noteq> Some ''Feature'' \<longrightarrow>
         setGeometry g2a c (Object (GeoJSON ty co ge)) =
           Inr (warn c invalid_geometry_message, None)) \<and>
      setGeometry g2a c (Object (GeoJSON (Some ''Feature'') co' (Some (GeoJSON ty co ge)))) =
        Inr (warn c invalid_geometry_message, None)) \<and>
   setGeometry g2a c (Object (GeoJSON (Some ''Feature'') co None)) = Inl TypeError"
proof -
  have accepted: "t \<in> {''Point'', ''LineString'', ''Polygon'', ''MultiPolygon''} \<longrightarrow>
      setGeometry g2a c (Object (GeoJSON (Some t) co ge)) =
        (case g2a (GeoJSON (Some t) co ge) None of
           Inl e \<Rightarrow> Inl e
         | Inr converted \<Rightarrow>
             Inr (c, Some \<lparr>geometry = Some (Converted converted),
                           geometryType = geojsonTypeToArcGIS t\<rparr>)) \<and>
      setGeometry g2a c (Object (GeoJSON (Some ''Feature'') co' (Some (GeoJSON (Some t) co ge)))) =
        (case g2a (GeoJSON (Some t) co ge) None of
           Inl e \<Rightarrow> Inl e
         | Inr converted \<Rightarrow>
             Inr (c, Some \<lparr>geometry = Some (Converted converted),
                           geometryType = geojsonTypeToArcGIS t\<rparr>))"
    by (auto simp add: setGeometry_def feature_step_def confirm_step_def geojsonToArcGIS_def
        split: sum.splits)
  have rejected:
    "ty \<notin> {Some ''Point'', Some ''LineString'', Some ''Polygon'', Some ''MultiPolygon''} \<longrightarrow>
      (ty \<noteq> Some ''Feature'' \<longrightarrow>
         setGeometry g2a c (Object (GeoJSON ty co ge)) =
           Inr (warn c invalid_geometry_message, None)) \<and>
      setGeometry g2a c (Object (GeoJSON (Some ''Feature'') co' (Some (GeoJSON ty co ge)))) =
        Inr (warn c invalid_geometry_message, None)"
    by (auto simp add: setGeometry_def feature_step_def confirm_step_def)
  have layer: "setGeometry g2a c (GeoJSONLayer (g # layers)) =
     (case g2a g None of Inl e \<Rightarrow> Inl e | Inr converted \<Rightarrow> setGeometry g2a c (Object g))"
    by (simp add: setGeometry_def geojsonToArcGIS_def confirm_step_def split: sum.splits)
  have rest: "setGeometry g2a c (Bounds b) =
     Inr (c, Some \<lparr>geometry = Some (Envelope (boundsToExtent b)),
                   geometryType = Some ''esriGeometryEnvelope''\<rparr>) \<and>
   setGeometry g2a c (Marker p) = setGeometry g2a c (LatLngObject p) \<and>
   setGeometry g2a c (LatLngObject p) =
     setGeometry g2a c
       (Object (GeoJSON (Some ''Point'') (Some (JArr [JNum (lng p), JNum (lat p)])) None)) \<and>
   setGeometry g2a c (VectorLayer g) = setGeometry g2a c (Object g) \<and>
   setGeometry g2a c (GeoJSONLayer []) = Inl TypeError \<and>
   setGeometry g2a c Nullish = Inl TypeError \<and>
   setGeometry g2a c Primitive = Inr (warn c invalid_geometry_message, None) \<and>
   setGeometry g2a c (Object (GeoJSON (Some ''Feature'') co None)) = Inl TypeError"
    by (simp add: setGeometry_def feature_step_def confirm_step_def)
  from rest layer accepted rejected show ?thesis
    by blast
qed

text \<open>
  C5, amended, on a Polygon with coordinates, which gives a pair; on a Polygon without
  coordinates, on which the converter fails and _setGeometry with it; and on a Feature
  with a MultiPoint geometry, which gives the warning and undefined.
\<close>

theorem setGeometry_shapes_witness:
  "setGeometry coordinates_converter (Some [])
     (Object (GeoJSON (Some ''Polygon'')
        (Some (JArr [JArr [JArr [JNum 0, JNum 0], JArr [JNum 0, JNum 1], JArr [JNum 1, JNum 1],
                           JArr [JNum 0, JNum 0]]]))
        None)) =
     Inr (Some [],
          Some \<lparr>geometry = Some (Converted
                   (JArr [JArr [JArr [JNum 0, JNum 0], JArr [JNum 0, JNum 1], JArr [JNum 1, JNum 1],
                                JArr [JNum 0, JNum 0]]])),
                geometryType = Some ''esriGeometryPolygon''\<rparr>) \<and>
   setGeometry coordinates_converter (Some []) (Object (GeoJSON (Some ''Polygon'') None None)) =
     Inl TypeError \<and>
   setGeometry coordinates_converter (Some [])
     (Object (GeoJSON (Some ''Feature'') None (Some (GeoJSON (Some ''MultiPoint'') None None)))) =
     Inr (Some [invalid_geometry_message], None)"
  using
    setGeometry_shapes
      [where ?g2a = coordinates_converter and c = "Some []" and t = "''Polygon''"
         and co = "Some (JArr [JArr [JArr [JNum 0, JNum 0], JArr [JNum 0, JNum 1],
                                     JArr [JNum 1, JNum 1], JArr [JNum 0, JNum 0]]])"
         and ge = None]
    setGeometry_shapes
      [where ?g2a = coordinates_converter and c = "Some []" and t = "''Polygon''" and co = None
         and ge = None and co' = None and ty = "Some ''MultiPoint''"]
  by (simp add: geojsonTypeToArcGIS_def warn_def coordinates_converter_def)


section \<open>Properties of the attribution overlay\<close>

lemma compile_pattern_plain:
  "set t \<inter> set (''().'' @ other_syntax_characters) = {} \<Longrightarrow>
   compile_pattern t d = (if d = 0 then Inr (map Lit t) else Inl SyntaxError)"
  by (induction t) auto

lemma match_here_Lit: "match_here (map Lit t) (t @ post)"
  by (induction t) auto

lemma match_here_Nil: "match_here atoms [] = (atoms = [])"
  by (cases atoms) auto

lemma search_Lit: "search (map Lit t) (pre @ t @ post)"
proof (induction pre)
  case Nil
  show ?case using match_here_Lit [of t post] by (cases "t @ post") auto
next
  case (Cons a pre)
  then show ?case by simp
qed

text \<open>
  Where the text has no syntax character of the pattern language, the match is a substring
  test, and of two records with the same text that both apply, the second is skipped.
\<close>

lemma appendAttributions_plain_text_once:
  assumes "set t \<inter> set (''().'' @ other_syntax_characters) = {}" and "t \<noteq> []"
    and "attribution a = t" and "attribution b = t"
    and "intersects (bounds a) wb" and "minZoom a \<le> z" and "z \<le> maxZoom a"
  shows "appendAttributions wb z [a, b] [] = Inr ('', '' @ t)"
proof -
  have 1: "js_match [] t = Inr False"
    using assms(1,2) by (simp add: js_match_def compile_pattern_plain match_here_Nil)
  have 2: "js_match ('', '' @ t) t = Inr True"
    using assms(1) search_Lit [of t "'', ''" "[]"] by (simp add: js_match_def compile_pattern_plain)
  show ?thesis using assms(3-) 1 2 by simp
qed

text \<open>
  C8 fails on the code where the attribution text has parentheses: the text is compiled as
  a pattern, in which the parentheses group and stand for no character, so the string
  built so far does not match it and the text is appended a second time. Two records with
  the text "Esri (c)", both covering the view and the zoom, give "Esri (c), Esri (c)".
\<close>

theorem updateMapAttribution_repeats_text_with_parentheses:
  "updateMapAttribution \<lparr>attributionWidthOffset = 55\<rparr>
     \<lparr>attributionControl = Some \<lparr>dynamic_attribution = Some \<lparr>innerHTML = [], maxWidth = None\<rparr>\<rparr>,
      esriAttributions = Some
        [\<lparr>attribution = ''Esri (c)'', score = 2,
          bounds = \<lparr>southWest = \<lparr>lat = -90, lng = -180\<rparr>, northEast = \<lparr>lat = 90, lng = 180\<rparr>\<rparr>,
          minZoom = 0, maxZoom = 19\<rparr>,
         \<lparr>attribution = ''Esri (c)'', score = 1,
          bounds = \<lparr>southWest = \<lparr>lat = -90, lng = -180\<rparr>, northEast = \<lparr>lat = 90, lng = 180\<rparr>\<rparr>,
          minZoom = 0, maxZoom = 19\<rparr>],
      getBounds = \<lparr>southWest = \<lparr>lat = 0, lng = 0\<rparr>, northEast = \<lparr>lat = 10, lng = 10\<rparr>\<rparr>,
      getZoom = 5, getSize_x = 800, fired = []\<rparr>
   = Inr
     \<lparr>attributionControl = Some \<lparr>dynamic_attribution =
        Some \<lparr>innerHTML = ''Esri (c), Esri (c)'', maxWidth = Some (Px 745)\<rparr>\<rparr>,
      esriAttributions = Some
        [\<lparr>attribution = ''Esri (c)'', score = 2,
          bounds = \<lparr>southWest = \<lparr>lat = -90, lng = -180\<rparr>, northEast = \<lparr>lat = 90, lng = 180\<rparr>\<rparr>,
          minZoom = 0, maxZoom = 19\<rparr>,
         \<lparr>attribution = ''Esri (c)'', score = 1,
          bounds = \<lparr>southWest = \<lparr>lat = -90, lng = -180\<rparr>, northEast = \<lparr>lat = 90, lng = 180\<rparr>\<rparr>,
          minZoom = 0, maxZoom = 19\<rparr>],
      getBounds = \<lparr>southWest = \<lparr>lat = 0, lng = 0\<rparr>, northEast = \<lparr>lat = 10, lng = 10\<rparr>\<rparr>,
      getZoom = 5, getSize_x = 800,
      fired = [(''attributionupdated'', ''Esri (c), Esri (c)'')]\<rparr>"
  by (simp add: updateMapAttribution_def js_match_def other_syntax_characters_def wrapNum_def
      wrap_def latLngBounds_def extend_bounds_def getSouthWest_def getNorthEast_def
      intersects_def calcAttributionWidth_def Let_def)

text \<open>
  C9: when the lookup completes with an error, the callback returns at once: the map, and
  with it the stored attribution list, is what it was before, and nothing fails.
\<close>

theorem attributionCallback_error_keeps_map:
  "attributionCallback opts m (Some e) payload = (m, None) \<and>
   esriAttributions (fst (attributionCallback opts m (Some e) payload)) = esriAttributions m \<and>
   getAttributionData (\<lambda>u. Some (Some e, payload)) opts url m = (m, None)"
  by (simp add: attributionCallback_def getAttributionData_def)


text \<open>
  C9 on a map that holds one attribution record, with a payload that would replace it:
  after the failed lookup the record is still the stored one.
\<close>

theorem attributionCallback_error_keeps_map_witness:
  "esriAttributions
     (fst (attributionCallback \<lparr>attributionWidthOffset = 55\<rparr>
        \<lparr>attributionControl = None,
         esriAttributions = Some
           [\<lparr>attribution = ''Esri'', score = 1,
             bounds = \<lparr>southWest = \<lparr>lat = 0, lng = 0\<rparr>, northEast = \<lparr>lat = 1, lng = 1\<rparr>\<rparr>,
             minZoom = 0, maxZoom = 9\<rparr>],
         getBounds = \<lparr>southWest = \<lparr>lat = 0, lng = 0\<rparr>, northEast = \<lparr>lat = 1, lng = 1\<rparr>\<rparr>,
         getZoom = 3, getSize_x = 600, fired = []\<rparr>
        (Some \<lparr>code = 500, message = ''error''\<rparr>)
        \<lparr>contributors = [\<lparr>contributor_attribution = ''HERE'', coverageAreas = []\<rparr>]\<rparr>))
   = Some
       [\<lparr>attribution = ''Esri'', score = 1,
         bounds = \<lparr>southWest = \<lparr>lat = 0, lng = 0\<rparr>, northEast = \<lparr>lat = 1, lng = 1\<rparr>\<rparr>,
         minZoom = 0, maxZoom = 9\<rparr>]"
  using attributionCallback_error_keeps_map
    [of "\<lparr>attributionWidthOffset = 55\<rparr>"
        "\<lparr>attributionControl = None,
         esriAttributions = Some
           [\<lparr>attribution = ''Esri'', score = 1,
             bounds = \<lparr>southWest = \<lparr>lat = 0, lng = 0\<rparr>, northEast = \<lparr>lat = 1, lng = 1\<rparr>\<rparr>,
             minZoom = 0, maxZoom = 9\<rparr>],
         getBounds = \<lparr>southWest = \<lparr>lat = 0, lng = 0\<rparr>, northEast = \<lparr>lat = 1, lng = 1\<rparr>\<rparr>,
         getZoom = 3, getSize_x = 600, fired = []\<rparr>"
        "\<lparr>code = 500, message = ''error''\<rparr>"
        "\<lparr>contributors = [\<lparr>contributor_attribution = ''HERE'', coverageAreas = []\<rparr>]\<rparr>"]
  by simp

text \<open>
  For contrast, a lookup that completes without error replaces the stored list by the
  records of the payload, sorted by descending score, whether or not the update of the
  overlay that follows fails.
\<close>

lemma updateMapAttribution_keeps_list:
  "updateMapAttribution opts m = Inr m' \<Longrightarrow> esriAttributions m' = esriAttributions m"
  by (auto simp add: updateMapAttribution_def Let_def split: option.splits sum.splits)

lemma attributionCallback_success_replaces_list:
  "esriAttributions (fst (attributionCallback opts m None payload)) =
     Some (sort_key (\<lambda>a. - score a) (pushContributors (contributors payload) []))"
  by (auto simp add: attributionCallback_def Let_def split: sum.splits
      dest: updateMapAttribution_keeps_list)

end
